theory Spec2Isabelle
  imports Complex_Main
begin

section \<open>Values produced by \<^verbatim>\<open>json.load\<close>\<close>

text \<open>
  The script \<^verbatim>\<open>kestra/scripts/aggregate_data.py\<close> works on whatever \<^verbatim>\<open>json.load\<close>
  returns: \<^verbatim>\<open>None\<close>, \<^verbatim>\<open>bool\<close>, \<^verbatim>\<open>int\<close>, \<^verbatim>\<open>float\<close>, \<^verbatim>\<open>str\<close>, \<^verbatim>\<open>list\<close> and \<^verbatim>\<open>dict\<close> with
  string keys. A dict is the list of its items in insertion order. A float is
  represented by its exact rational value; the non-standard literals \<^verbatim>\<open>NaN\<close> and
  \<^verbatim>\<open>Infinity\<close> are not represented. A character of a string stands for one code point.
\<close>

datatype json =
    JNull
  | JBool bool
  | JInt int
  | JFloat rat
  | JStr string
  | JArr "json list"
  | JObj "(string \<times> json) list"

text \<open>The exceptions that the script can meet; all of them derive from \<^verbatim>\<open>Exception\<close>.\<close>

datatype exn =
    AttributeError
  | TypeError
  | FileNotFoundError
  | PermissionError
  | JSONDecodeError
  | UnicodeDecodeError

text \<open>Sequencing of statements that may raise: the first exception ends the block.\<close>

definition and_then :: "exn + 'a \<Rightarrow> ('a \<Rightarrow> exn + 'b) \<Rightarrow> exn + 'b" where
  "and_then r f = (case r of Inl e \<Rightarrow> Inl e | Inr v \<Rightarrow> f v)"

subsection \<open>Python's \<^verbatim>\<open>==\<close> on loaded values\<close>

text \<open>
  \<^verbatim>\<open>bool\<close> is a subclass of \<^verbatim>\<open>int\<close>, and \<^verbatim>\<open>int\<close> and \<^verbatim>\<open>float\<close> compare by exact
  value, so \<^verbatim>\<open>True == 1 == 1.0\<close>. Values of different kinds are otherwise unequal, lists
  compare element by element, and dicts compare as mappings whatever their item order.
\<close>

fun num_val :: "json \<Rightarrow> rat option" where
  "num_val (JBool b) = Some (if b then 1 else 0)"
| "num_val (JInt i) = Some (of_int i)"
| "num_val (JFloat q) = Some q"
| "num_val _ = None"

fun dict_get :: "(string \<times> json) list \<Rightarrow> string \<Rightarrow> json option" where
  "dict_get [] k = None"
| "dict_get ((k', v) # kvs) k = (if k' = k then Some v else dict_get kvs k)"

lemma size_list_member: "z \<in> set xs \<Longrightarrow> size z < Suc (size_list size xs)"
  by (induction xs) auto

lemma size_items_member:
  "(a, b) \<in> set kvs \<Longrightarrow> size b < Suc (size_list (size_prod (\<lambda>x. 0) size) kvs)"
  by (induction kvs) auto

function py_eq :: "json \<Rightarrow> json \<Rightarrow> bool" where
  "py_eq JNull b = (b = JNull)"
| "py_eq (JBool x) b = (num_val b = Some (if x then 1 else 0))"
| "py_eq (JInt i) b = (num_val b = Some (of_int i))"
| "py_eq (JFloat q) b = (num_val b = Some q)"
| "py_eq (JStr s) b = (b = JStr s)"
| "py_eq (JArr xs) b = (case b of JArr ys \<Rightarrow> list_all2 py_eq xs ys | _ \<Rightarrow> False)"
| "py_eq (JObj kvs) b =
     (case b of
        JObj kws \<Rightarrow>
          length kvs = length kws \<and>
          list_all (\<lambda>kv. case dict_get kws (fst kv) of
                            None \<Rightarrow> False
                          | Some w \<Rightarrow> py_eq (snd kv) w) kvs
      | _ \<Rightarrow> False)"
  by pat_completeness auto
termination
  by (relation "measure (\<lambda>(a, b). size a)")
     (auto simp: size_list_member size_items_member)

subsection \<open>The operations the script applies to loaded values\<close>

text \<open>\<^verbatim>\<open>d.get(k)\<close>: \<^verbatim>\<open>None\<close> for a missing key; only a dict has the method.\<close>

definition py_get :: "json \<Rightarrow> string \<Rightarrow> exn + json" where
  "py_get d k =
     (case d of
        JObj kvs \<Rightarrow> Inr (case dict_get kvs k of None \<Rightarrow> JNull | Some v \<Rightarrow> v)
      | _ \<Rightarrow> Inl AttributeError)"

text \<open>\<^verbatim>\<open>d.get(k, default)\<close>.\<close>

definition py_get_default :: "json \<Rightarrow> string \<Rightarrow> json \<Rightarrow> exn + json" where
  "py_get_default d k dflt =
     (case d of
        JObj kvs \<Rightarrow> Inr (case dict_get kvs k of None \<Rightarrow> dflt | Some v \<Rightarrow> v)
      | _ \<Rightarrow> Inl AttributeError)"

text \<open>\<^verbatim>\<open>len(v)\<close>: defined on lists, dicts and strings.\<close>

definition py_len :: "json \<Rightarrow> exn + json" where
  "py_len v =
     (case v of
        JArr xs \<Rightarrow> Inr (JInt (int (length xs)))
      | JObj kvs \<Rightarrow> Inr (JInt (int (length kvs)))
      | JStr s \<Rightarrow> Inr (JInt (int (length s)))
      | _ \<Rightarrow> Inl TypeError)"

text \<open>
  \<^verbatim>\<open>v[:3]\<close>: a new list or string of the first three items. A dict cannot be sliced
  (\<^verbatim>\<open>TypeError\<close>; a \<^verbatim>\<open>KeyError\<close> from Python 3.12 on), nor can a number, a bool or \<^verbatim>\<open>None\<close>.
\<close>

definition py_slice3 :: "json \<Rightarrow> exn + json" where
  "py_slice3 v =
     (case v of
        JArr xs \<Rightarrow> Inr (JArr (take 3 xs))
      | JStr s \<Rightarrow> Inr (JStr (take 3 s))
      | _ \<Rightarrow> Inl TypeError)"

text \<open>
  \<^verbatim>\<open>for inc in v\<close>: a list yields its elements, a dict its keys, a string its
  characters; nothing else is iterable.
\<close>

definition py_iter :: "json \<Rightarrow> exn + json list" where
  "py_iter v =
     (case v of
        JArr xs \<Rightarrow> Inr xs
      | JObj kvs \<Rightarrow> Inr (map (\<lambda>kv. JStr (fst kv)) kvs)
      | JStr s \<Rightarrow> Inr (map (\<lambda>c. JStr [c]) s)
      | _ \<Rightarrow> Inl TypeError)"

section \<open>The aggregator\<close>

text \<open>
  The state of the file at \<^verbatim>\<open>/app/data/mock-incidents.json\<close> as the function sees it:
  \<^verbatim>\<open>os.path.exists\<close> is false, or it is true and \<^verbatim>\<open>open\<close> followed by \<^verbatim>\<open>json.load\<close>
  raises or returns a value.
\<close>

datatype hist_file = Missing | Exists "exn + json"

text \<open>A line on the error stream: the warning of the function, or the traceback of an
  exception nobody caught.\<close>

datatype err_line = Warning exn | Traceback exn

text \<open>The variables of \<^verbatim>\<open>aggregate_incident_data\<close> and the error stream it writes to.\<close>

record frame =
  incident_data :: json
  historical_incidents :: "json list"
  err_stream :: "err_line list"

text \<open>
  The list comprehension
  \<^verbatim>\<open>[inc for inc in all_incidents if inc.get('service') == service and inc.get('id') != incident_data.get('id')]\<close>.
  The condition is evaluated left to right and \<^verbatim>\<open>and\<close> skips its right operand when the left
  one is false; an exception at any element abandons the whole list.
\<close>

fun comprehension :: "json \<Rightarrow> json \<Rightarrow> json list \<Rightarrow> exn + json list" where
  "comprehension incident service [] = Inr []"
| "comprehension incident service (inc # rest) =
     and_then (py_get inc ''service'') (\<lambda>s.
       if py_eq s service then
         and_then (py_get inc ''id'') (\<lambda>i.
         and_then (py_get incident ''id'') (\<lambda>j.
           if \<not> py_eq i j
           then and_then (comprehension incident service rest) (\<lambda>ms. Inr (inc # ms))
           else comprehension incident service rest))
       else comprehension incident service rest)"

text \<open>The body of the \<^verbatim>\<open>try\<close> block once \<^verbatim>\<open>json.load\<close> has returned \<^verbatim>\<open>all_incidents\<close>.\<close>

definition similar_incidents :: "json \<Rightarrow> json \<Rightarrow> exn + json list" where
  "similar_incidents incident all_incidents =
     and_then (py_get_default incident ''service'' (JStr [])) (\<lambda>service.
     and_then (py_iter all_incidents) (\<lambda>incs.
     and_then (comprehension incident service incs) (\<lambda>ms.
       Inr (take 3 ms))))"

text \<open>
  The \<^verbatim>\<open>if os.path.exists(...): try: ... except Exception as e: print(..., file=sys.stderr)\<close>
  statement. The assignment to \<^verbatim>\<open>historical_incidents\<close> happens only when the whole
  right-hand side has been evaluated.
\<close>

definition load_historical :: "hist_file \<Rightarrow> frame \<Rightarrow> frame" where
  "load_historical hf fr =
     (case hf of
        Missing \<Rightarrow> fr
      | Exists loaded \<Rightarrow>
          (case and_then loaded (similar_incidents (incident_data fr)) of
             Inl e \<Rightarrow> fr\<lparr>err_stream := err_stream fr @ [Warning e]\<rparr>
           | Inr ms \<Rightarrow> fr\<lparr>historical_incidents := ms\<rparr>))"

text \<open>The dict display bound to \<^verbatim>\<open>aggregated\<close>, its items evaluated in source order.\<close>

definition build_aggregated :: "frame \<Rightarrow> exn + json" where
  "build_aggregated fr =
     (let inc = incident_data fr; hist = historical_incidents fr in
      and_then (py_get_default inc ''logs'' (JArr [])) (\<lambda>logs1.
      and_then (py_len logs1) (\<lambda>logs_count.
      and_then (py_get_default inc ''logs'' (JArr [])) (\<lambda>logs2.
      and_then (py_slice3 logs2) (\<lambda>logs_sample.
      and_then (py_get_default inc ''metrics'' (JObj [])) (\<lambda>metrics_data.
      and_then (py_get_default inc ''context'' (JObj [])) (\<lambda>context_data.
      and_then (py_get_default inc ''logs'' (JArr [])) (\<lambda>logs3.
      and_then (py_len logs3) (\<lambda>log_entries.
      and_then (py_get_default inc ''metrics'' (JObj [])) (\<lambda>metrics2.
      and_then (py_len metrics2) (\<lambda>metric_points.
      and_then (py_get_default inc ''timestamp'' (JStr [])) (\<lambda>ts.
        Inr (JObj
          [(''current_incident'', inc),
           (''data_sources'', JObj
              [(''logs'', JObj
                  [(''source'', JStr ''current_incident''),
                   (''count'', logs_count),
                   (''sample'', logs_sample)]),
               (''metrics'', JObj
                  [(''source'', JStr ''monitoring_system''),
                   (''data'', metrics_data)]),
               (''context'', JObj
                  [(''source'', JStr ''service_registry''),
                   (''data'', context_data)]),
               (''historical_patterns'', JObj
                  [(''source'', JStr ''incident_database''),
                   (''count'', JInt (int (length hist))),
                   (''incidents'', JArr hist)])]),
           (''aggregation_summary'', JObj
              [(''total_sources'', JInt 4),
               (''log_entries'', log_entries),
               (''metric_points'', metric_points),
               (''similar_incidents'', JInt (int (length hist))),
               (''aggregation_timestamp'', ts)])])))))))))))))"

text \<open>
  \<^verbatim>\<open>aggregate_incident_data(incident_data)\<close>: the final frame, and the returned dict or the
  exception that leaves the function.
\<close>

definition aggregate_incident_data :: "hist_file \<Rightarrow> json \<Rightarrow> frame \<times> (exn + json)" where
  "aggregate_incident_data hf incident =
     (let fr = load_historical hf
                 \<lparr>incident_data = incident, historical_incidents = [], err_stream = []\<rparr>
      in (fr, build_aggregated fr))"

section \<open>The command-line entry point\<close>

text \<open>
  What the process finds outside: the argument vector, the outcome of \<^verbatim>\<open>open\<close> and
  \<^verbatim>\<open>json.load\<close> for a path, the outcome of \<^verbatim>\<open>json.load(sys.stdin)\<close>, and the historical
  file.
\<close>

record env =
  argv :: "string list"
  load_path :: "string \<Rightarrow> exn + json"
  load_stdin :: "exn + json"
  historical :: hist_file

text \<open>What the process leaves behind: the documents printed on standard output, the lines
  on the error stream, and the exit status.\<close>

record outcome =
  stdout :: "json list"
  stderr :: "err_line list"
  exit_status :: nat

text \<open>Lines 73 to 77: the incident is read from the file named by the first argument, or
  from standard input when there is none.\<close>

definition read_incident :: "env \<Rightarrow> exn + json" where
  "read_incident ev =
     (if length (argv ev) > 1 then load_path ev (argv ev ! 1) else load_stdin ev)"

text \<open>The \<^verbatim>\<open>__main__\<close> block. An uncaught exception prints a traceback and exits with
  status 1.\<close>

definition main :: "env \<Rightarrow> outcome" where
  "main ev =
     (case read_incident ev of
        Inl e \<Rightarrow> \<lparr>stdout = [], stderr = [Traceback e], exit_status = 1\<rparr>
      | Inr incident \<Rightarrow>
          (case aggregate_incident_data (historical ev) incident of
             (fr, Inl e) \<Rightarrow>
               \<lparr>stdout = [], stderr = err_stream fr @ [Traceback e], exit_status = 1\<rparr>
           | (fr, Inr aggregated) \<Rightarrow>
               \<lparr>stdout = [aggregated], stderr = err_stream fr, exit_status = 0\<rparr>))"

section \<open>The data model of the specification\<close>

fun is_obj :: "json \<Rightarrow> bool" where
  "is_obj (JObj kvs) = True"
| "is_obj _ = False"

fun is_arr :: "json \<Rightarrow> bool" where
  "is_arr (JArr xs) = True"
| "is_arr _ = False"

fun is_str :: "json \<Rightarrow> bool" where
  "is_str (JStr s) = True"
| "is_str _ = False"

text \<open>An optional field: absent, or present with a value of the stated kind.\<close>

definition field_is :: "(json \<Rightarrow> bool) \<Rightarrow> (string \<times> json) list \<Rightarrow> string \<Rightarrow> bool" where
  "field_is P kvs k = (case dict_get kvs k of None \<Rightarrow> True | Some v \<Rightarrow> P v)"

text \<open>
  An incident record as the specification's data model describes it: a mapping with
  optional fields \<^verbatim>\<open>id\<close> (string), \<^verbatim>\<open>service\<close> (string), \<^verbatim>\<open>logs\<close> (sequence), \<^verbatim>\<open>metrics\<close>
  (mapping), \<^verbatim>\<open>context\<close> (mapping) and \<^verbatim>\<open>timestamp\<close> (string). This predicate is the
  domain of the properties below; the functions above accept any loaded value.
\<close>

definition incident_record :: "json \<Rightarrow> bool" where
  "incident_record v =
     (case v of
        JObj kvs \<Rightarrow>
          field_is is_str kvs ''id'' \<and> field_is is_str kvs ''service'' \<and>
          field_is is_arr kvs ''logs'' \<and> field_is is_obj kvs ''metrics'' \<and>
          field_is is_obj kvs ''context'' \<and> field_is is_str kvs ''timestamp''
      | _ \<Rightarrow> False)"

text \<open>A historical store: a sequence of mappings.\<close>

definition historical_store :: "json \<Rightarrow> bool" where
  "historical_store v = (case v of JArr xs \<Rightarrow> list_all is_obj xs | _ \<Rightarrow> False)"

subsection \<open>Reading the aggregated report\<close>

text \<open>\<^verbatim>\<open>report[k1][k2]...\<close>, when every key along the way is there.\<close>

definition item :: "json \<Rightarrow> string \<Rightarrow> json option" where
  "item v k = (case v of JObj kvs \<Rightarrow> dict_get kvs k | _ \<Rightarrow> None)"

fun at_path :: "json \<Rightarrow> string list \<Rightarrow> json option" where
  "at_path v [] = Some v"
| "at_path v (k # ks) = (case item v k of None \<Rightarrow> None | Some w \<Rightarrow> at_path w ks)"

text \<open>
  The value a mapping's items give for a key, or \<open>d\<close> when no item has the key. It is
  written with \<^const>\<open>map_of\<close> on the items, apart from the accessors of the script, so
  that a property stated with it says what the record holds.
\<close>

abbreviation entry_or :: "(string \<times> json) list \<Rightarrow> string \<Rightarrow> json \<Rightarrow> json" where
  "entry_or kvs k d \<equiv> (case map_of kvs k of None \<Rightarrow> d | Some v \<Rightarrow> v)"

section \<open>Auxiliary facts\<close>

text \<open>The script's lookups read the items of a mapping.\<close>

lemma dict_get_map_of: "dict_get kvs k = map_of kvs k"
  by (induction kvs) auto

lemma py_get_items: "py_get (JObj kvs) k = Inr (entry_or kvs k JNull)"
  by (simp add: py_get_def dict_get_map_of)

lemma py_get_default_items: "py_get_default (JObj kvs) k d = Inr (entry_or kvs k d)"
  by (simp add: py_get_default_def dict_get_map_of)

lemma py_eq_str: "is_str b \<Longrightarrow> py_eq a b = (a = b)"
  by (cases b; cases a) auto

lemma py_eq_null: "py_eq a JNull = (a = JNull)"
  by (cases a) auto

lemma py_get_obj: "is_obj r \<Longrightarrow> \<exists>v. py_get r k = Inr v"
  by (cases r) (auto simp: py_get_def)

text \<open>On a store of mappings the comprehension raises nothing and is a filter; against a
  string service and a string or absent id, \<^verbatim>\<open>==\<close> and \<^verbatim>\<open>!=\<close> are equality and
  inequality of values.\<close>

lemma comprehension_records:
  assumes "list_all is_obj store" and "py_get inc ''id'' = Inr j" and "j = JNull \<or> is_str j"
    and "is_str service"
  shows "comprehension inc service store =
           Inr (filter (\<lambda>r. py_get r ''service'' = Inr service \<and> py_get r ''id'' \<noteq> Inr j) store)"
  using assms(1)
proof (induction store)
  case Nil
  then show ?case by simp
next
  case (Cons r rs)
  then have "is_obj r" by simp
  then obtain s i where s: "py_get r ''service'' = Inr s" and i: "py_get r ''id'' = Inr i"
    using py_get_obj by blast
  have eqj: "py_eq i j = (i = j)"
    using assms(3) by (auto simp: py_eq_null py_eq_str)
  have IH: "comprehension inc service rs =
      Inr (filter (\<lambda>r. py_get r ''service'' = Inr service \<and> py_get r ''id'' \<noteq> Inr j) rs)"
    using Cons by simp
  show ?case
    by (simp add: s i and_then_def assms(2) eqj py_eq_str[OF assms(4)] IH)
qed

text \<open>Whatever is iterated, an element that the comprehension keeps has a \<^verbatim>\<open>service\<close>
  that compared equal to the incident's.\<close>

lemma comprehension_sound:
  "comprehension inc service xs = Inr ms \<Longrightarrow> r \<in> set ms \<Longrightarrow>
     \<exists>s. py_get r ''service'' = Inr s \<and> py_eq s service"
proof (induction xs arbitrary: ms)
  case Nil
  then show ?case by simp
next
  case (Cons x xs)
  then show ?case
    by (auto simp: and_then_def split: sum.splits if_splits)
qed

text \<open>The fields of an incident record, with the defaults the script supplies.\<close>

lemma incident_record_fields:
  assumes "incident_record inc"
  shows "\<exists>logs ms c t. py_get_default inc ''logs'' (JArr []) = Inr (JArr logs) \<and>
           py_get_default inc ''metrics'' (JObj []) = Inr (JObj ms) \<and>
           py_get_default inc ''context'' (JObj []) = Inr (JObj c) \<and>
           py_get_default inc ''timestamp'' (JStr []) = Inr (JStr t)"
proof -
  from assms obtain kvs where inc: "inc = JObj kvs"
    by (cases inc) (auto simp: incident_record_def)
  have l: "\<exists>logs. py_get_default inc ''logs'' (JArr []) = Inr (JArr logs)"
    using assms unfolding inc incident_record_def field_is_def py_get_default_def
    by (cases "dict_get kvs ''logs''"; cases "the (dict_get kvs ''logs'')") auto
  have m: "\<exists>ms. py_get_default inc ''metrics'' (JObj []) = Inr (JObj ms)"
    using assms unfolding inc incident_record_def field_is_def py_get_default_def
    by (cases "dict_get kvs ''metrics''"; cases "the (dict_get kvs ''metrics'')") auto
  have c: "\<exists>c. py_get_default inc ''context'' (JObj []) = Inr (JObj c)"
    using assms unfolding inc incident_record_def field_is_def py_get_default_def
    by (cases "dict_get kvs ''context''"; cases "the (dict_get kvs ''context'')") auto
  have t: "\<exists>t. py_get_default inc ''timestamp'' (JStr []) = Inr (JStr t)"
    using assms unfolding inc incident_record_def field_is_def py_get_default_def
    by (cases "dict_get kvs ''timestamp''"; cases "the (dict_get kvs ''timestamp'')") auto
  from l m c t show ?thesis by blast
qed

lemma incident_record_keys:
  assumes "incident_record inc"
  shows "\<exists>s j. py_get_default inc ''service'' (JStr []) = Inr (JStr s) \<and>
           py_get inc ''id'' = Inr j \<and> (j = JNull \<or> is_str j)"
proof -
  from assms obtain kvs where inc: "inc = JObj kvs"
    by (cases inc) (auto simp: incident_record_def)
  have s: "\<exists>s. py_get_default inc ''service'' (JStr []) = Inr (JStr s)"
    using assms unfolding inc incident_record_def field_is_def py_get_default_def
    by (cases "dict_get kvs ''service''"; cases "the (dict_get kvs ''service'')") auto
  have j: "\<exists>j. py_get inc ''id'' = Inr j \<and> (j = JNull \<or> is_str j)"
    using assms unfolding inc incident_record_def field_is_def py_get_def
    by (cases "dict_get kvs ''id''") auto
  from s j show ?thesis by blast
qed

text \<open>On a record whose \<^verbatim>\<open>logs\<close> is a list and whose \<^verbatim>\<open>metrics\<close> is a dict, no item of the
  display raises.\<close>

lemma build_aggregated_record:
  assumes "py_get_default inc ''logs'' (JArr []) = Inr (JArr logs)"
    and "py_get_default inc ''metrics'' (JObj []) = Inr (JObj ms)"
    and "py_get_default inc ''context'' (JObj []) = Inr c"
    and "py_get_default inc ''timestamp'' (JStr []) = Inr t"
  shows "build_aggregated \<lparr>incident_data = inc, historical_incidents = hs, err_stream = es\<rparr> =
     Inr (JObj
          [(''current_incident'', inc),
           (''data_sources'', JObj
              [(''logs'', JObj
                  [(''source'', JStr ''current_incident''),
                   (''count'', JInt (int (length logs))),
                   (''sample'', JArr (take 3 logs))]),
               (''metrics'', JObj
                  [(''source'', JStr ''monitoring_system''),
                   (''data'', JObj ms)]),
               (''context'', JObj
                  [(''source'', JStr ''service_registry''),
                   (''data'', c)]),
               (''historical_patterns'', JObj
                  [(''source'', JStr ''incident_database''),
                   (''count'', JInt (int (length hs))),
                   (''incidents'', JArr hs)])]),
           (''aggregation_summary'', JObj
              [(''total_sources'', JInt 4),
               (''log_entries'', JInt (int (length logs))),
               (''metric_points'', JInt (int (length ms))),
               (''similar_incidents'', JInt (int (length hs))),
               (''aggregation_timestamp'', t)])])"
  by (simp add: build_aggregated_def and_then_def assms py_len_def py_slice3_def)

text \<open>Loading the historical file leaves \<^verbatim>\<open>incident_data\<close> as it was.\<close>

lemma load_historical_frame:
  "\<exists>hs es. load_historical hf \<lparr>incident_data = inc, historical_incidents = [], err_stream = []\<rparr>
      = \<lparr>incident_data = inc, historical_incidents = hs, err_stream = es\<rparr>"
  by (auto simp: load_historical_def split: hist_file.splits sum.splits)

lemma aggregate_record:
  assumes "incident_record inc"
  shows "\<exists>hs es logs ms c t.
      py_get_default inc ''logs'' (JArr []) = Inr (JArr logs) \<and>
      py_get_default inc ''metrics'' (JObj []) = Inr (JObj ms) \<and>
      py_get_default inc ''context'' (JObj []) = Inr (JObj c) \<and>
      py_get_default inc ''timestamp'' (JStr []) = Inr (JStr t) \<and>
      load_historical hf \<lparr>incident_data = inc, historical_incidents = [], err_stream = []\<rparr>
        = \<lparr>incident_data = inc, historical_incidents = hs, err_stream = es\<rparr> \<and>
      aggregate_incident_data hf inc =
        (\<lparr>incident_data = inc, historical_incidents = hs, err_stream = es\<rparr>,
         build_aggregated \<lparr>incident_data = inc, historical_incidents = hs, err_stream = es\<rparr>)"
proof -
  obtain logs ms c t where f:
    "py_get_default inc ''logs'' (JArr []) = Inr (JArr logs)"
    "py_get_default inc ''metrics'' (JObj []) = Inr (JObj ms)"
    "py_get_default inc ''context'' (JObj []) = Inr (JObj c)"
    "py_get_default inc ''timestamp'' (JStr []) = Inr (JStr t)"
    using incident_record_fields[OF assms] by blast
  obtain hs es where l:
    "load_historical hf \<lparr>incident_data = inc, historical_incidents = [], err_stream = []\<rparr>
        = \<lparr>incident_data = inc, historical_incidents = hs, err_stream = es\<rparr>"
    using load_historical_frame by blast
  have "aggregate_incident_data hf inc =
        (\<lparr>incident_data = inc, historical_incidents = hs, err_stream = es\<rparr>,
         build_aggregated \<lparr>incident_data = inc, historical_incidents = hs, err_stream = es\<rparr>)"
    by (simp add: aggregate_incident_data_def l Let_def)
  with f l show ?thesis by blast
qed

text \<open>Against an incident record and a store of mappings the \<^verbatim>\<open>try\<close> body selects the
  first three records with the incident's service and another id.\<close>

lemma similar_incidents_records:
  assumes "incident_record inc" and "list_all is_obj store"
  shows "similar_incidents inc (JArr store) =
     Inr (take 3 (filter (\<lambda>r. py_get r ''service'' = py_get_default inc ''service'' (JStr [])
                              \<and> py_get r ''id'' \<noteq> py_get inc ''id'') store))"
proof -
  obtain s j where s: "py_get_default inc ''service'' (JStr []) = Inr (JStr s)"
    and j: "py_get inc ''id'' = Inr j" "j = JNull \<or> is_str j"
    using incident_record_keys[OF assms(1)] by blast
  have "comprehension inc (JStr s) store =
      Inr (filter (\<lambda>r. py_get r ''service'' = Inr (JStr s) \<and> py_get r ''id'' \<noteq> Inr j) store)"
    using comprehension_records[OF assms(2) j] by simp
  then show ?thesis
    by (simp add: similar_incidents_def and_then_def s j py_iter_def)
qed

text \<open>Only a dict has \<^verbatim>\<open>get\<close>.\<close>

lemma py_get_non_obj: "\<not> is_obj r \<Longrightarrow> py_get r k = Inl AttributeError"
  by (cases r) (auto simp: py_get_def)

lemma py_get_default_non_obj: "\<not> is_obj r \<Longrightarrow> py_get_default r k d = Inl AttributeError"
  by (cases r) (auto simp: py_get_default_def)

text \<open>One element that is not a mapping makes the whole comprehension raise, wherever it
  stands in the list.\<close>

lemma comprehension_non_record:
  assumes "is_obj inc" and "\<not> list_all is_obj xs"
  shows "comprehension inc service xs = Inl AttributeError"
  using assms(2)
proof (induction xs)
  case Nil
  then show ?case by simp
next
  case (Cons x xs)
  obtain j where j: "py_get inc ''id'' = Inr j"
    using py_get_obj[OF assms(1)] by blast
  show ?case
  proof (cases "is_obj x")
    case False
    then show ?thesis by (simp add: py_get_non_obj and_then_def)
  next
    case True
    then obtain s i where s: "py_get x ''service'' = Inr s" and i: "py_get x ''id'' = Inr i"
      using py_get_obj by blast
    from True Cons have "comprehension inc service xs = Inl AttributeError" by simp
    then show ?thesis by (simp add: s i j and_then_def)
  qed
qed

text \<open>What the \<^verbatim>\<open>try\<close> body does with a loaded value that is not a sequence of mappings:
  an empty dict or string is iterated without a step, everything else raises.\<close>

lemma similar_incidents_malformed:
  assumes "is_obj inc" and "\<not> historical_store v"
  shows "similar_incidents inc v =
     (if v = JObj [] \<or> v = JStr [] then Inr []
      else Inl (if is_arr v \<or> is_obj v \<or> is_str v then AttributeError else TypeError))"
proof -
  obtain s where s: "py_get_default inc ''service'' (JStr []) = Inr s"
    using assms(1) by (cases inc) (auto simp: py_get_default_def)
  show ?thesis
  proof (cases v)
    case (JArr xs)
    with assms(2) have "\<not> list_all is_obj xs" by (simp add: historical_store_def)
    from comprehension_non_record[OF assms(1) this] show ?thesis
      by (simp add: JArr similar_incidents_def and_then_def s py_iter_def)
  next
    case (JObj kvs)
    show ?thesis
      by (cases kvs)
         (auto simp: JObj similar_incidents_def and_then_def s py_iter_def py_get_def)
  next
    case (JStr str)
    show ?thesis
      by (cases str)
         (auto simp: JStr similar_incidents_def and_then_def s py_iter_def py_get_def)
  qed (simp_all add: similar_incidents_def and_then_def s py_iter_def)
qed

text \<open>The same for any mapping as the incident, whatever the kinds of its \<^verbatim>\<open>service\<close> and
  \<^verbatim>\<open>id\<close>: the filter is by Python's \<^verbatim>\<open>==\<close> and \<^verbatim>\<open>!=\<close>.\<close>

lemma comprehension_mappings:
  assumes "list_all is_obj store" and "py_get inc ''id'' = Inr j"
  shows "comprehension inc service store =
           Inr (filter (\<lambda>rec. case (py_get rec ''service'', py_get rec ''id'') of
                                 (Inr s, Inr i) \<Rightarrow> py_eq s service \<and> \<not> py_eq i j
                               | _ \<Rightarrow> False) store)"
  using assms(1)
proof (induction store)
  case Nil
  then show ?case by simp
next
  case (Cons r rs)
  then have "is_obj r" by simp
  then obtain s i where s: "py_get r ''service'' = Inr s" and i: "py_get r ''id'' = Inr i"
    using py_get_obj by blast
  from Cons have IH: "comprehension inc service rs =
      Inr (filter (\<lambda>rec. case (py_get rec ''service'', py_get rec ''id'') of
                            (Inr s, Inr i) \<Rightarrow> py_eq s service \<and> \<not> py_eq i j
                          | _ \<Rightarrow> False) rs)"
    by simp
  show ?case
    by (simp add: s i and_then_def assms(2) IH)
qed

lemma similar_incidents_mappings:
  assumes "list_all is_obj store" and "py_get inc ''id'' = Inr j"
    and "py_get_default inc ''service'' (JStr []) = Inr service"
  shows "similar_incidents inc (JArr store) =
     Inr (take 3 (filter (\<lambda>rec. case (py_get rec ''service'', py_get rec ''id'') of
                                   (Inr s, Inr i) \<Rightarrow> py_eq s service \<and> \<not> py_eq i j
                                 | _ \<Rightarrow> False) store))"
  by (simp add: similar_incidents_def and_then_def assms(3) py_iter_def
      comprehension_mappings[OF assms(1,2)])

text \<open>
  A selected record without a \<^verbatim>\<open>service\<close> key can only come from an incident whose
  \<^verbatim>\<open>service\<close> is present and \<^verbatim>\<open>null\<close>: then \<^verbatim>\<open>get\<close> does not supply its default and
  \<^verbatim>\<open>None == None\<close> holds. Such an incident is outside the data model, where \<^verbatim>\<open>service\<close> is a
  string.
\<close>

lemma selected_without_service:
  assumes "dict_get kvs ''service'' = None"
    and "JObj kvs \<in> set (historical_incidents (fst (aggregate_incident_data hf incident)))"
  shows "py_get_default incident ''service'' (JStr []) = Inr JNull"
proof -
  let ?hs = "historical_incidents (fst (aggregate_incident_data hf incident))"
  from assms(2) have "?hs \<noteq> []" by auto
  then obtain v where v: "similar_incidents incident v = Inr ?hs"
    by (auto simp: aggregate_incident_data_def Let_def load_historical_def and_then_def
        split: hist_file.splits sum.splits)
  then obtain service incs ms where s: "py_get_default incident ''service'' (JStr []) = Inr service"
    and c: "comprehension incident service incs = Inr ms" and hs: "?hs = take 3 ms"
    by (auto simp: similar_incidents_def and_then_def split: sum.splits)
  from assms(2) hs have "JObj kvs \<in> set ms" by (auto dest: in_set_takeD)
  from comprehension_sound[OF c this] have "py_eq JNull service"
    by (simp add: py_get_def assms(1))
  with s show ?thesis by simp
qed

lemma null_service_example:
  "historical_incidents (fst (aggregate_incident_data
      (Exists (Inr (JArr [JObj [(''id'', JStr ''h1'')]])))
      (JObj [(''id'', JStr ''inc-2''), (''service'', JNull)]))) = [JObj [(''id'', JStr ''h1'')]]"
  by (simp add: aggregate_incident_data_def load_historical_def similar_incidents_def
      and_then_def py_get_def py_get_default_def py_iter_def Let_def)

section \<open>Properties of the aggregator\<close>

text \<open>
  C1. For every incident record and every historical store (a sequence of mappings), the
  selected matches are the first at most three records of the store, in the store's order,
  whose \<^verbatim>\<open>service\<close> value equals the incident's \<^verbatim>\<open>service\<close> (the empty string when absent)
  and whose \<^verbatim>\<open>id\<close> value differs from the incident's \<^verbatim>\<open>id\<close>. The selection has at most
  three entries, each with the incident's service and an id other than the incident's, and
  it is the list the report carries.
\<close>

theorem c1_historical_selection:
  assumes "incident_record (JObj ikvs)" and "list_all is_obj store"
  shows "\<exists>fr r. aggregate_incident_data (Exists (Inr (JArr store))) (JObj ikvs) = (fr, Inr r) \<and>
     historical_incidents fr =
       take 3 (filter (\<lambda>rec. case rec of
                  JObj rkvs \<Rightarrow>
                    entry_or rkvs ''service'' JNull = entry_or ikvs ''service'' (JStr []) \<and>
                    entry_or rkvs ''id'' JNull \<noteq> entry_or ikvs ''id'' JNull
                | _ \<Rightarrow> False) store) \<and>
     at_path r [''data_sources'', ''historical_patterns'', ''incidents''] = Some (JArr (historical_incidents fr)) \<and>
     length (historical_incidents fr) \<le> 3 \<and>
     list_all (\<lambda>rec. case rec of
                  JObj rkvs \<Rightarrow>
                    entry_or rkvs ''service'' JNull = entry_or ikvs ''service'' (JStr []) \<and>
                    entry_or rkvs ''id'' JNull \<noteq> entry_or ikvs ''id'' JNull
                | _ \<Rightarrow> False) (historical_incidents fr) \<and>
     err_stream fr = []"
proof -
  let ?Q = "\<lambda>rec. py_get rec ''service'' = py_get_default (JObj ikvs) ''service'' (JStr [])
                    \<and> py_get rec ''id'' \<noteq> py_get (JObj ikvs) ''id''"
  let ?P = "(\<lambda>rec. case rec of
                  JObj rkvs \<Rightarrow>
                    entry_or rkvs ''service'' JNull = entry_or ikvs ''service'' (JStr []) \<and>
                    entry_or rkvs ''id'' JNull \<noteq> entry_or ikvs ''id'' JNull
                | _ \<Rightarrow> False)"
  let ?sel = "take 3 (filter ?P store)"
  have "?Q rec = ?P rec" if "rec \<in> set store" for rec
  proof -
    from that assms(2) have "is_obj rec" by (simp add: list_all_iff)
    then obtain rkvs where "rec = JObj rkvs" by (cases rec) auto
    then show ?thesis by (simp add: py_get_items py_get_default_items)
  qed
  then have "filter ?Q store = filter ?P store"
    by (intro filter_cong) auto
  then have sim: "similar_incidents (JObj ikvs) (JArr store) = Inr ?sel"
    using similar_incidents_records[OF assms] by simp
  obtain logs ms c t where
    f: "py_get_default (JObj ikvs) ''logs'' (JArr []) = Inr (JArr logs)"
      "py_get_default (JObj ikvs) ''metrics'' (JObj []) = Inr (JObj ms)"
      "py_get_default (JObj ikvs) ''context'' (JObj []) = Inr (JObj c)"
      "py_get_default (JObj ikvs) ''timestamp'' (JStr []) = Inr (JStr t)"
    using incident_record_fields[OF assms(1)] by blast
  have l: "load_historical (Exists (Inr (JArr store)))
         \<lparr>incident_data = JObj ikvs, historical_incidents = [], err_stream = []\<rparr>
       = \<lparr>incident_data = JObj ikvs, historical_incidents = ?sel, err_stream = []\<rparr>"
    by (simp add: load_historical_def and_then_def sim)
  have a: "aggregate_incident_data (Exists (Inr (JArr store))) (JObj ikvs) =
      (\<lparr>incident_data = JObj ikvs, historical_incidents = ?sel, err_stream = []\<rparr>,
       build_aggregated \<lparr>incident_data = JObj ikvs, historical_incidents = ?sel, err_stream = []\<rparr>)"
    by (simp add: aggregate_incident_data_def l Let_def)
  have p: "list_all ?P ?sel"
    unfolding list_all_iff by (auto dest: in_set_takeD)
  show ?thesis
    unfolding a build_aggregated_record[OF f] using p by (simp add: item_def)
qed

theorem c1_witness:
  "incident_record (JObj [(''id'', JStr ''inc-2''), (''service'', JStr ''payments'')]) \<and>
   list_all is_obj
     [JObj [(''id'', JStr ''h1''), (''service'', JStr ''payments'')],
      JObj [(''id'', JStr ''inc-2''), (''service'', JStr ''payments'')],
      JObj [(''id'', JStr ''h3''), (''service'', JStr ''billing'')],
      JObj [(''id'', JStr ''h4''), (''service'', JStr ''payments'')],
      JObj [(''id'', JStr ''h5''), (''service'', JStr ''payments'')],
      JObj [(''id'', JStr ''h6''), (''service'', JStr ''payments'')]] \<and>
   (\<exists>fr r. aggregate_incident_data (Exists (Inr (JArr
     [JObj [(''id'', JStr ''h1''), (''service'', JStr ''payments'')],
      JObj [(''id'', JStr ''inc-2''), (''service'', JStr ''payments'')],
      JObj [(''id'', JStr ''h3''), (''service'', JStr ''billing'')],
      JObj [(''id'', JStr ''h4''), (''service'', JStr ''payments'')],
      JObj [(''id'', JStr ''h5''), (''service'', JStr ''payments'')],
      JObj [(''id'', JStr ''h6''), (''service'', JStr ''payments'')]])))
       (JObj [(''id'', JStr ''inc-2''), (''service'', JStr ''payments'')]) = (fr, Inr r) \<and>
     historical_incidents fr =
       [JObj [(''id'', JStr ''h1''), (''service'', JStr ''payments'')],
        JObj [(''id'', JStr ''h4''), (''service'', JStr ''payments'')],
        JObj [(''id'', JStr ''h5''), (''service'', JStr ''payments'')]] \<and>
     at_path r [''data_sources'', ''historical_patterns'', ''incidents''] =
       Some (JArr
       [JObj [(''id'', JStr ''h1''), (''service'', JStr ''payments'')],
        JObj [(''id'', JStr ''h4''), (''service'', JStr ''payments'')],
        JObj [(''id'', JStr ''h5''), (''service'', JStr ''payments'')]]) \<and>
     err_stream fr = [])"
proof -
  have h: "incident_record (JObj [(''id'', JStr ''inc-2''), (''service'', JStr ''payments'')])"
    by (simp add: incident_record_def field_is_def)
  have s: "list_all is_obj
     [JObj [(''id'', JStr ''h1''), (''service'', JStr ''payments'')],
      JObj [(''id'', JStr ''inc-2''), (''service'', JStr ''payments'')],
      JObj [(''id'', JStr ''h3''), (''service'', JStr ''billing'')],
      JObj [(''id'', JStr ''h4''), (''service'', JStr ''payments'')],
      JObj [(''id'', JStr ''h5''), (''service'', JStr ''payments'')],
      JObj [(''id'', JStr ''h6''), (''service'', JStr ''payments'')]]"
    by simp
  from c1_historical_selection[OF h s] obtain fr r where
    a: "aggregate_incident_data (Exists (Inr (JArr
     [JObj [(''id'', JStr ''h1''), (''service'', JStr ''payments'')],
      JObj [(''id'', JStr ''inc-2''), (''service'', JStr ''payments'')],
      JObj [(''id'', JStr ''h3''), (''service'', JStr ''billing'')],
      JObj [(''id'', JStr ''h4''), (''service'', JStr ''payments'')],
      JObj [(''id'', JStr ''h5''), (''service'', JStr ''payments'')],
      JObj [(''id'', JStr ''h6''), (''service'', JStr ''payments'')]])))
       (JObj [(''id'', JStr ''inc-2''), (''service'', JStr ''payments'')]) = (fr, Inr r)"
    and sel: "historical_incidents fr =
       take 3 (filter (\<lambda>rec. case rec of
                  JObj rkvs \<Rightarrow>
                    entry_or rkvs ''service'' JNull = entry_or [(''id'', JStr ''inc-2''), (''service'', JStr ''payments'')] ''service'' (JStr []) \<and>
                    entry_or rkvs ''id'' JNull \<noteq> entry_or [(''id'', JStr ''inc-2''), (''service'', JStr ''payments'')] ''id'' JNull
                | _ \<Rightarrow> False)
     [JObj [(''id'', JStr ''h1''), (''service'', JStr ''payments'')],
      JObj [(''id'', JStr ''inc-2''), (''service'', JStr ''payments'')],
      JObj [(''id'', JStr ''h3''), (''service'', JStr ''billing'')],
      JObj [(''id'', JStr ''h4''), (''service'', JStr ''payments'')],
      JObj [(''id'', JStr ''h5''), (''service'', JStr ''payments'')],
      JObj [(''id'', JStr ''h6''), (''service'', JStr ''payments'')]])"
    and p: "at_path r [''data_sources'', ''historical_patterns'', ''incidents''] = Some (JArr (historical_incidents fr))"
    and e: "err_stream fr = []"
    by blast
  have v: "historical_incidents fr =
       [JObj [(''id'', JStr ''h1''), (''service'', JStr ''payments'')],
        JObj [(''id'', JStr ''h4''), (''service'', JStr ''payments'')],
        JObj [(''id'', JStr ''h5''), (''service'', JStr ''payments'')]]"
    unfolding sel by simp
  have "historical_incidents (fst (aggregate_incident_data (Exists (Inr (JArr
     [JObj [(''id'', JStr ''h1''), (''service'', JStr ''payments'')],
      JObj [(''id'', JStr ''inc-2''), (''service'', JStr ''payments'')],
      JObj [(''id'', JStr ''h3''), (''service'', JStr ''billing'')],
      JObj [(''id'', JStr ''h4''), (''service'', JStr ''payments'')],
      JObj [(''id'', JStr ''h5''), (''service'', JStr ''payments'')],
      JObj [(''id'', JStr ''h6''), (''service'', JStr ''payments'')]])))
       (JObj [(''id'', JStr ''inc-2''), (''service'', JStr ''payments'')]))) =
       [JObj [(''id'', JStr ''h1''), (''service'', JStr ''payments'')],
        JObj [(''id'', JStr ''h4''), (''service'', JStr ''payments'')],
        JObj [(''id'', JStr ''h5''), (''service'', JStr ''payments'')]]"
    by (simp add: aggregate_incident_data_def load_historical_def similar_incidents_def
        and_then_def py_get_def py_get_default_def py_iter_def Let_def)
  with a have run: "historical_incidents fr =
       [JObj [(''id'', JStr ''h1''), (''service'', JStr ''payments'')],
        JObj [(''id'', JStr ''h4''), (''service'', JStr ''payments'')],
        JObj [(''id'', JStr ''h5''), (''service'', JStr ''payments'')]]"
    by simp
  from p have p': "at_path r [''data_sources'', ''historical_patterns'', ''incidents''] =
       Some (JArr
       [JObj [(''id'', JStr ''h1''), (''service'', JStr ''payments'')],
        JObj [(''id'', JStr ''h4''), (''service'', JStr ''payments'')],
        JObj [(''id'', JStr ''h5''), (''service'', JStr ''payments'')]])"
    by (simp only: v)
  from a run p' e have "\<exists>fr r. aggregate_incident_data (Exists (Inr (JArr
     [JObj [(''id'', JStr ''h1''), (''service'', JStr ''payments'')],
      JObj [(''id'', JStr ''inc-2''), (''service'', JStr ''payments'')],
      JObj [(''id'', JStr ''h3''), (''service'', JStr ''billing'')],
      JObj [(''id'', JStr ''h4''), (''service'', JStr ''payments'')],
      JObj [(''id'', JStr ''h5''), (''service'', JStr ''payments'')],
      JObj [(''id'', JStr ''h6''), (''service'', JStr ''payments'')]])))
       (JObj [(''id'', JStr ''inc-2''), (''service'', JStr ''payments'')]) = (fr, Inr r) \<and>
     historical_incidents fr =
       [JObj [(''id'', JStr ''h1''), (''service'', JStr ''payments'')],
        JObj [(''id'', JStr ''h4''), (''service'', JStr ''payments'')],
        JObj [(''id'', JStr ''h5''), (''service'', JStr ''payments'')]] \<and>
     at_path r [''data_sources'', ''historical_patterns'', ''incidents''] =
       Some (JArr
       [JObj [(''id'', JStr ''h1''), (''service'', JStr ''payments'')],
        JObj [(''id'', JStr ''h4''), (''service'', JStr ''payments'')],
        JObj [(''id'', JStr ''h5''), (''service'', JStr ''payments'')]]) \<and>
     err_stream fr = []"
    by (intro exI conjI)
  with h s show ?thesis by (intro conjI)
qed

text \<open>
  C2. For every valid incident record the \<^verbatim>\<open>current_incident\<close> field of the returned
  report is the input record itself, and the function leaves the input as it was: the
  variable \<^verbatim>\<open>incident_data\<close> holds the same value when the function returns. This holds
  whatever the state of the historical file.
\<close>

theorem c2_current_incident_unchanged:
  assumes "incident_record incident"
  shows "\<exists>fr r. aggregate_incident_data hf incident = (fr, Inr r) \<and>
           at_path r [''current_incident''] = Some incident \<and>
           incident_data fr = incident"
proof -
  obtain hs es logs ms c t where
    f: "py_get_default incident ''logs'' (JArr []) = Inr (JArr logs)"
      "py_get_default incident ''metrics'' (JObj []) = Inr (JObj ms)"
      "py_get_default incident ''context'' (JObj []) = Inr (JObj c)"
      "py_get_default incident ''timestamp'' (JStr []) = Inr (JStr t)"
    and a: "aggregate_incident_data hf incident =
        (\<lparr>incident_data = incident, historical_incidents = hs, err_stream = es\<rparr>,
         build_aggregated \<lparr>incident_data = incident, historical_incidents = hs, err_stream = es\<rparr>)"
    using aggregate_record[OF assms] by blast
  show ?thesis
    unfolding a build_aggregated_record[OF f] by (simp add: item_def)
qed

theorem c2_witness:
  "incident_record (JObj [(''id'', JStr ''inc-2''), (''service'', JStr ''payments''),
              (''logs'', JArr [JStr ''a'', JStr ''b'', JStr ''c'', JStr ''d'']),
              (''metrics'', JObj [(''cpu'', JInt 90)]),
              (''timestamp'', JStr ''T1'')]) \<and>
   (\<exists>fr r. aggregate_incident_data Missing (JObj [(''id'', JStr ''inc-2''), (''service'', JStr ''payments''),
              (''logs'', JArr [JStr ''a'', JStr ''b'', JStr ''c'', JStr ''d'']),
              (''metrics'', JObj [(''cpu'', JInt 90)]),
              (''timestamp'', JStr ''T1'')]) = (fr, Inr r) \<and>
      at_path r [''current_incident''] = Some (JObj [(''id'', JStr ''inc-2''), (''service'', JStr ''payments''),
              (''logs'', JArr [JStr ''a'', JStr ''b'', JStr ''c'', JStr ''d'']),
              (''metrics'', JObj [(''cpu'', JInt 90)]),
              (''timestamp'', JStr ''T1'')]) \<and>
      incident_data fr = (JObj [(''id'', JStr ''inc-2''), (''service'', JStr ''payments''),
              (''logs'', JArr [JStr ''a'', JStr ''b'', JStr ''c'', JStr ''d'']),
              (''metrics'', JObj [(''cpu'', JInt 90)]),
              (''timestamp'', JStr ''T1'')]))"
proof -
  have h: "incident_record (JObj [(''id'', JStr ''inc-2''), (''service'', JStr ''payments''),
              (''logs'', JArr [JStr ''a'', JStr ''b'', JStr ''c'', JStr ''d'']),
              (''metrics'', JObj [(''cpu'', JInt 90)]),
              (''timestamp'', JStr ''T1'')])"
    by (simp add: incident_record_def field_is_def)
  show ?thesis
    using h c2_current_incident_unchanged[OF h, of Missing] by blast
qed

text \<open>
  C3. For every valid incident record the report's \<^verbatim>\<open>aggregation_summary\<close> has
  \<^verbatim>\<open>total_sources\<close> 4, \<^verbatim>\<open>log_entries\<close> the length of the \<^verbatim>\<open>logs\<close> sequence (the empty
  sequence when absent), \<^verbatim>\<open>metric_points\<close> the number of items of the \<^verbatim>\<open>metrics\<close> mapping
  (the empty mapping when absent), \<^verbatim>\<open>similar_incidents\<close> the number of selected historical
  matches, and \<^verbatim>\<open>aggregation_timestamp\<close> the \<^verbatim>\<open>timestamp\<close> value (the empty string when
  absent).
\<close>

theorem c3_aggregation_summary:
  assumes "incident_record (JObj kvs)"
  shows "\<exists>fr r logs ms. aggregate_incident_data hf (JObj kvs) = (fr, Inr r) \<and>
      entry_or kvs ''logs'' (JArr []) = JArr logs \<and>
      entry_or kvs ''metrics'' (JObj []) = JObj ms \<and>
      at_path r [''aggregation_summary'', ''total_sources''] = Some (JInt 4) \<and>
      at_path r [''aggregation_summary'', ''log_entries''] = Some (JInt (int (length logs))) \<and>
      at_path r [''aggregation_summary'', ''metric_points''] = Some (JInt (int (length ms))) \<and>
      at_path r [''aggregation_summary'', ''similar_incidents''] =
        Some (JInt (int (length (historical_incidents fr)))) \<and>
      at_path r [''aggregation_summary'', ''aggregation_timestamp''] =
        Some (entry_or kvs ''timestamp'' (JStr []))"
proof -
  obtain hs es logs ms c t where
    f: "py_get_default (JObj kvs) ''logs'' (JArr []) = Inr (JArr logs)"
      "py_get_default (JObj kvs) ''metrics'' (JObj []) = Inr (JObj ms)"
      "py_get_default (JObj kvs) ''context'' (JObj []) = Inr (JObj c)"
      "py_get_default (JObj kvs) ''timestamp'' (JStr []) = Inr (JStr t)"
    and a: "aggregate_incident_data hf (JObj kvs) =
        (\<lparr>incident_data = JObj kvs, historical_incidents = hs, err_stream = es\<rparr>,
         build_aggregated \<lparr>incident_data = JObj kvs, historical_incidents = hs, err_stream = es\<rparr>)"
    using aggregate_record[OF assms] by blast
  from f have g: "entry_or kvs ''logs'' (JArr []) = JArr logs"
    "entry_or kvs ''metrics'' (JObj []) = JObj ms"
    "entry_or kvs ''timestamp'' (JStr []) = JStr t"
    by (simp_all add: py_get_default_items)
  show ?thesis
    unfolding a build_aggregated_record[OF f] by (simp add: item_def g)
qed

theorem c3_witness:
  "incident_record (JObj
     [(''id'', JStr ''inc-2''), (''service'', JStr ''payments''),
      (''logs'', JArr [JStr ''a'', JStr ''b'']),
      (''metrics'', JObj [(''cpu'', JInt 90)]),
      (''timestamp'', JStr ''T1'')]) \<and>
   (\<exists>fr r. aggregate_incident_data (Exists (Inr (JArr
     [JObj [(''id'', JStr ''inc-1''), (''service'', JStr ''payments'')],
      JObj [(''id'', JStr ''inc-2''), (''service'', JStr ''payments'')],
      JObj [(''id'', JStr ''inc-3''), (''service'', JStr ''billing'')]]))) (JObj
     [(''id'', JStr ''inc-2''), (''service'', JStr ''payments''),
      (''logs'', JArr [JStr ''a'', JStr ''b'']),
      (''metrics'', JObj [(''cpu'', JInt 90)]),
      (''timestamp'', JStr ''T1'')]) = (fr, Inr r) \<and>
      at_path r [''aggregation_summary'', ''total_sources''] = Some (JInt 4) \<and>
      at_path r [''aggregation_summary'', ''log_entries''] = Some (JInt 2) \<and>
      at_path r [''aggregation_summary'', ''metric_points''] = Some (JInt 1) \<and>
      at_path r [''aggregation_summary'', ''similar_incidents''] = Some (JInt 1) \<and>
      at_path r [''aggregation_summary'', ''aggregation_timestamp''] = Some (JStr ''T1''))"
proof -
  have h: "incident_record (JObj
     [(''id'', JStr ''inc-2''), (''service'', JStr ''payments''),
      (''logs'', JArr [JStr ''a'', JStr ''b'']),
      (''metrics'', JObj [(''cpu'', JInt 90)]),
      (''timestamp'', JStr ''T1'')])"
    by (simp add: incident_record_def field_is_def)
  from c3_aggregation_summary[OF h, of "Exists (Inr (JArr
     [JObj [(''id'', JStr ''inc-1''), (''service'', JStr ''payments'')],
      JObj [(''id'', JStr ''inc-2''), (''service'', JStr ''payments'')],
      JObj [(''id'', JStr ''inc-3''), (''service'', JStr ''billing'')]]))"]
  obtain fr r logs ms where
    a: "aggregate_incident_data (Exists (Inr (JArr
     [JObj [(''id'', JStr ''inc-1''), (''service'', JStr ''payments'')],
      JObj [(''id'', JStr ''inc-2''), (''service'', JStr ''payments'')],
      JObj [(''id'', JStr ''inc-3''), (''service'', JStr ''billing'')]]))) (JObj
     [(''id'', JStr ''inc-2''), (''service'', JStr ''payments''),
      (''logs'', JArr [JStr ''a'', JStr ''b'']),
      (''metrics'', JObj [(''cpu'', JInt 90)]),
      (''timestamp'', JStr ''T1'')]) = (fr, Inr r)"
    and l: "entry_or [(''id'', JStr ''inc-2''), (''service'', JStr ''payments''),
      (''logs'', JArr [JStr ''a'', JStr ''b'']),
      (''metrics'', JObj [(''cpu'', JInt 90)]),
      (''timestamp'', JStr ''T1'')] ''logs'' (JArr []) = JArr logs"
    and m: "entry_or [(''id'', JStr ''inc-2''), (''service'', JStr ''payments''),
      (''logs'', JArr [JStr ''a'', JStr ''b'']),
      (''metrics'', JObj [(''cpu'', JInt 90)]),
      (''timestamp'', JStr ''T1'')] ''metrics'' (JObj []) = JObj ms"
    and p: "at_path r [''aggregation_summary'', ''total_sources''] = Some (JInt 4)"
      "at_path r [''aggregation_summary'', ''log_entries''] = Some (JInt (int (length logs)))"
      "at_path r [''aggregation_summary'', ''metric_points''] = Some (JInt (int (length ms)))"
      "at_path r [''aggregation_summary'', ''similar_incidents''] =
        Some (JInt (int (length (historical_incidents fr))))"
      "at_path r [''aggregation_summary'', ''aggregation_timestamp''] =
        Some (entry_or [(''id'', JStr ''inc-2''), (''service'', JStr ''payments''),
      (''logs'', JArr [JStr ''a'', JStr ''b'']),
      (''metrics'', JObj [(''cpu'', JInt 90)]),
      (''timestamp'', JStr ''T1'')] ''timestamp'' (JStr []))"
    by blast
  from l have l': "logs = [JStr ''a'', JStr ''b'']" by simp
  from m have m': "ms = [(''cpu'', JInt 90)]" by simp
  have "historical_incidents (fst (aggregate_incident_data (Exists (Inr (JArr
     [JObj [(''id'', JStr ''inc-1''), (''service'', JStr ''payments'')],
      JObj [(''id'', JStr ''inc-2''), (''service'', JStr ''payments'')],
      JObj [(''id'', JStr ''inc-3''), (''service'', JStr ''billing'')]]))) (JObj
     [(''id'', JStr ''inc-2''), (''service'', JStr ''payments''),
      (''logs'', JArr [JStr ''a'', JStr ''b'']),
      (''metrics'', JObj [(''cpu'', JInt 90)]),
      (''timestamp'', JStr ''T1'')]))) = [JObj [(''id'', JStr ''inc-1''), (''service'', JStr ''payments'')]]"
    by (simp add: aggregate_incident_data_def load_historical_def similar_incidents_def
        and_then_def py_get_def py_get_default_def py_iter_def Let_def)
  with a have n: "length (historical_incidents fr) = 1" by simp
  show ?thesis
    using h a p unfolding l' m' n by auto
qed

text \<open>
  C4. For every valid incident record, in the report's \<^verbatim>\<open>data_sources\<close>: \<^verbatim>\<open>logs.count\<close> is
  the length of the \<^verbatim>\<open>logs\<close> sequence, \<^verbatim>\<open>logs.sample\<close> is its first min(3, length) entries
  in order, \<^verbatim>\<open>metrics.data\<close> is the \<^verbatim>\<open>metrics\<close> mapping and \<^verbatim>\<open>context.data\<close> the
  \<^verbatim>\<open>context\<close> mapping, each unchanged, and each empty when the field is absent.
\<close>

theorem c4_data_sources:
  assumes "incident_record (JObj kvs)"
  shows "\<exists>fr r logs. aggregate_incident_data hf (JObj kvs) = (fr, Inr r) \<and>
      entry_or kvs ''logs'' (JArr []) = JArr logs \<and>
      at_path r [''data_sources'', ''logs'', ''count''] = Some (JInt (int (length logs))) \<and>
      at_path r [''data_sources'', ''logs'', ''sample''] =
        Some (JArr (take (min 3 (length logs)) logs)) \<and>
      at_path r [''data_sources'', ''metrics'', ''data''] = Some (entry_or kvs ''metrics'' (JObj [])) \<and>
      at_path r [''data_sources'', ''context'', ''data''] = Some (entry_or kvs ''context'' (JObj []))"
proof -
  obtain hs es logs ms c t where
    f: "py_get_default (JObj kvs) ''logs'' (JArr []) = Inr (JArr logs)"
      "py_get_default (JObj kvs) ''metrics'' (JObj []) = Inr (JObj ms)"
      "py_get_default (JObj kvs) ''context'' (JObj []) = Inr (JObj c)"
      "py_get_default (JObj kvs) ''timestamp'' (JStr []) = Inr (JStr t)"
    and a: "aggregate_incident_data hf (JObj kvs) =
        (\<lparr>incident_data = JObj kvs, historical_incidents = hs, err_stream = es\<rparr>,
         build_aggregated \<lparr>incident_data = JObj kvs, historical_incidents = hs, err_stream = es\<rparr>)"
    using aggregate_record[OF assms] by blast
  from f have g: "entry_or kvs ''logs'' (JArr []) = JArr logs"
    "entry_or kvs ''metrics'' (JObj []) = JObj ms"
    "entry_or kvs ''context'' (JObj []) = JObj c"
    by (simp_all add: py_get_default_items)
  have "take (min 3 (length logs)) logs = take 3 logs"
    by (simp add: min_def)
  then show ?thesis
    unfolding a build_aggregated_record[OF f] by (simp add: item_def g)
qed

theorem c4_witness:
  "incident_record (JObj
     [(''id'', JStr ''inc-2''), (''service'', JStr ''payments''),
      (''logs'', JArr [JStr ''a'', JStr ''b'', JStr ''c'', JStr ''d'']),
      (''metrics'', JObj [(''cpu'', JInt 90)]),
      (''timestamp'', JStr ''T1'')]) \<and>
   (\<exists>fr r. aggregate_incident_data Missing (JObj
     [(''id'', JStr ''inc-2''), (''service'', JStr ''payments''),
      (''logs'', JArr [JStr ''a'', JStr ''b'', JStr ''c'', JStr ''d'']),
      (''metrics'', JObj [(''cpu'', JInt 90)]),
      (''timestamp'', JStr ''T1'')]) = (fr, Inr r) \<and>
      at_path r [''data_sources'', ''logs'', ''count''] = Some (JInt 4) \<and>
      at_path r [''data_sources'', ''logs'', ''sample''] =
        Some (JArr [JStr ''a'', JStr ''b'', JStr ''c'']) \<and>
      at_path r [''data_sources'', ''metrics'', ''data''] = Some (JObj [(''cpu'', JInt 90)]) \<and>
      at_path r [''data_sources'', ''context'', ''data''] = Some (JObj []))"
proof -
  have h: "incident_record (JObj
     [(''id'', JStr ''inc-2''), (''service'', JStr ''payments''),
      (''logs'', JArr [JStr ''a'', JStr ''b'', JStr ''c'', JStr ''d'']),
      (''metrics'', JObj [(''cpu'', JInt 90)]),
      (''timestamp'', JStr ''T1'')])"
    by (simp add: incident_record_def field_is_def)
  from c4_data_sources[OF h, of Missing]
  obtain fr r logs where
    a: "aggregate_incident_data Missing (JObj
     [(''id'', JStr ''inc-2''), (''service'', JStr ''payments''),
      (''logs'', JArr [JStr ''a'', JStr ''b'', JStr ''c'', JStr ''d'']),
      (''metrics'', JObj [(''cpu'', JInt 90)]),
      (''timestamp'', JStr ''T1'')]) = (fr, Inr r)"
    and l: "entry_or [(''id'', JStr ''inc-2''), (''service'', JStr ''payments''),
      (''logs'', JArr [JStr ''a'', JStr ''b'', JStr ''c'', JStr ''d'']),
      (''metrics'', JObj [(''cpu'', JInt 90)]),
      (''timestamp'', JStr ''T1'')] ''logs'' (JArr []) = JArr logs"
    and p: "at_path r [''data_sources'', ''logs'', ''count''] = Some (JInt (int (length logs)))"
      "at_path r [''data_sources'', ''logs'', ''sample''] =
        Some (JArr (take (min 3 (length logs)) logs))"
      "at_path r [''data_sources'', ''metrics'', ''data''] =
        Some (entry_or [(''id'', JStr ''inc-2''), (''service'', JStr ''payments''),
      (''logs'', JArr [JStr ''a'', JStr ''b'', JStr ''c'', JStr ''d'']),
      (''metrics'', JObj [(''cpu'', JInt 90)]),
      (''timestamp'', JStr ''T1'')] ''metrics'' (JObj []))"
      "at_path r [''data_sources'', ''context'', ''data''] =
        Some (entry_or [(''id'', JStr ''inc-2''), (''service'', JStr ''payments''),
      (''logs'', JArr [JStr ''a'', JStr ''b'', JStr ''c'', JStr ''d'']),
      (''metrics'', JObj [(''cpu'', JInt 90)]),
      (''timestamp'', JStr ''T1'')] ''context'' (JObj []))"
    by blast
  from l have l': "logs = [JStr ''a'', JStr ''b'', JStr ''c'', JStr ''d'']" by simp
  have "\<exists>r'. snd (aggregate_incident_data Missing (JObj
     [(''id'', JStr ''inc-2''), (''service'', JStr ''payments''),
      (''logs'', JArr [JStr ''a'', JStr ''b'', JStr ''c'', JStr ''d'']),
      (''metrics'', JObj [(''cpu'', JInt 90)]),
      (''timestamp'', JStr ''T1'')])) = Inr r' \<and>
      at_path r' [''data_sources'', ''logs'', ''count''] = Some (JInt 4) \<and>
      at_path r' [''data_sources'', ''logs'', ''sample''] =
        Some (JArr [JStr ''a'', JStr ''b'', JStr ''c'']) \<and>
      at_path r' [''data_sources'', ''metrics'', ''data''] = Some (JObj [(''cpu'', JInt 90)])"
    by (simp add: aggregate_incident_data_def load_historical_def build_aggregated_def
        and_then_def py_get_default_def py_len_def py_slice3_def item_def Let_def)
  with a have run: "at_path r [''data_sources'', ''logs'', ''count''] = Some (JInt 4)"
    "at_path r [''data_sources'', ''logs'', ''sample''] =
        Some (JArr [JStr ''a'', JStr ''b'', JStr ''c''])"
    "at_path r [''data_sources'', ''metrics'', ''data''] = Some (JObj [(''cpu'', JInt 90)])"
    by simp_all
  show ?thesis
    using h a p run unfolding l' by auto
qed

text \<open>
  C5, as stated, asks for a warning when the historical file is absent. The function tests
  \<^verbatim>\<open>os.path.exists\<close> first and skips the whole \<^verbatim>\<open>try\<close> statement when it is false, so
  nothing is written to the error stream.
\<close>

theorem c5_counterexample:
  "incident_record (JObj [(''id'', JStr ''inc-2''), (''service'', JStr ''payments'')]) \<and>
   err_stream (fst (aggregate_incident_data Missing
      (JObj [(''id'', JStr ''inc-2''), (''service'', JStr ''payments'')]))) = []"
  by (simp add: incident_record_def field_is_def
      aggregate_incident_data_def load_historical_def Let_def)

text \<open>
  C5, amended. For every incident record: when the historical file is missing the function
  returns the report with an empty historical match set and writes no warning; when the
  file exists but cannot be read or is not valid JSON it writes one warning, carrying the
  exception, and returns the same report. In both cases \<^verbatim>\<open>historical_patterns.count\<close> and
  \<^verbatim>\<open>aggregation_summary.similar_incidents\<close> are 0, no exception leaves the function, and
  the rest of the report is what any other state of the file would have given.
\<close>

theorem c5_unavailable_historical_file:
  assumes "incident_record incident"
  shows "\<exists>r. aggregate_incident_data Missing incident =
        (\<lparr>incident_data = incident, historical_incidents = [], err_stream = []\<rparr>, Inr r) \<and>
     (\<forall>e. aggregate_incident_data (Exists (Inl e)) incident =
        (\<lparr>incident_data = incident, historical_incidents = [], err_stream = [Warning e]\<rparr>, Inr r)) \<and>
     at_path r [''data_sources'', ''historical_patterns'', ''count''] = Some (JInt 0) \<and>
     at_path r [''data_sources'', ''historical_patterns'', ''incidents''] = Some (JArr []) \<and>
     at_path r [''aggregation_summary'', ''similar_incidents''] = Some (JInt 0) \<and>
     (\<forall>hf fr' r'. aggregate_incident_data hf incident = (fr', Inr r') \<longrightarrow>
        list_all (\<lambda>p. at_path r' p = at_path r p)
          [[''current_incident''],
           [''data_sources'', ''logs''],
           [''data_sources'', ''metrics''],
           [''data_sources'', ''context''],
           [''data_sources'', ''historical_patterns'', ''source''],
           [''aggregation_summary'', ''total_sources''],
           [''aggregation_summary'', ''log_entries''],
           [''aggregation_summary'', ''metric_points''],
           [''aggregation_summary'', ''aggregation_timestamp'']])"
proof -
  obtain logs ms c t where
    f: "py_get_default incident ''logs'' (JArr []) = Inr (JArr logs)"
      "py_get_default incident ''metrics'' (JObj []) = Inr (JObj ms)"
      "py_get_default incident ''context'' (JObj []) = Inr (JObj c)"
      "py_get_default incident ''timestamp'' (JStr []) = Inr (JStr t)"
    using incident_record_fields[OF assms(1)] by blast
  have others: "list_all (\<lambda>p. at_path r' p = at_path r p)
          [[''current_incident''],
           [''data_sources'', ''logs''],
           [''data_sources'', ''metrics''],
           [''data_sources'', ''context''],
           [''data_sources'', ''historical_patterns'', ''source''],
           [''aggregation_summary'', ''total_sources''],
           [''aggregation_summary'', ''log_entries''],
           [''aggregation_summary'', ''metric_points''],
           [''aggregation_summary'', ''aggregation_timestamp'']]"
    if "aggregate_incident_data hf incident = (fr', Inr r')"
      and "build_aggregated \<lparr>incident_data = incident, historical_incidents = [], err_stream = []\<rparr> = Inr r"
    for hf fr' r' r
  proof -
    obtain hs es where
      "load_historical hf \<lparr>incident_data = incident, historical_incidents = [], err_stream = []\<rparr>
        = \<lparr>incident_data = incident, historical_incidents = hs, err_stream = es\<rparr>"
      using load_historical_frame by blast
    with that(1) have
      "build_aggregated \<lparr>incident_data = incident, historical_incidents = hs, err_stream = es\<rparr> = Inr r'"
      by (auto simp: aggregate_incident_data_def Let_def)
    with that(2) show ?thesis
      unfolding build_aggregated_record[OF f] by (auto simp: item_def)
  qed
  have m: "aggregate_incident_data Missing incident =
        (\<lparr>incident_data = incident, historical_incidents = [], err_stream = []\<rparr>,
         build_aggregated \<lparr>incident_data = incident, historical_incidents = [], err_stream = []\<rparr>)"
    by (simp add: aggregate_incident_data_def load_historical_def Let_def)
  have e: "aggregate_incident_data (Exists (Inl e)) incident =
        (\<lparr>incident_data = incident, historical_incidents = [], err_stream = [Warning e]\<rparr>,
         build_aggregated \<lparr>incident_data = incident, historical_incidents = [], err_stream = []\<rparr>)" for e
    by (simp add: aggregate_incident_data_def load_historical_def and_then_def Let_def
        build_aggregated_record[OF f])
  obtain r where r: "build_aggregated \<lparr>incident_data = incident, historical_incidents = [], err_stream = []\<rparr> = Inr r"
    using build_aggregated_record[OF f] by blast
  have p: "at_path r [''data_sources'', ''historical_patterns'', ''count''] = Some (JInt 0) \<and>
     at_path r [''data_sources'', ''historical_patterns'', ''incidents''] = Some (JArr []) \<and>
     at_path r [''aggregation_summary'', ''similar_incidents''] = Some (JInt 0)"
    using r unfolding build_aggregated_record[OF f] by (auto simp: item_def)
  have o: "\<forall>hf fr' r'. aggregate_incident_data hf incident = (fr', Inr r') \<longrightarrow>
        list_all (\<lambda>p. at_path r' p = at_path r p)
          [[''current_incident''],
           [''data_sources'', ''logs''],
           [''data_sources'', ''metrics''],
           [''data_sources'', ''context''],
           [''data_sources'', ''historical_patterns'', ''source''],
           [''aggregation_summary'', ''total_sources''],
           [''aggregation_summary'', ''log_entries''],
           [''aggregation_summary'', ''metric_points''],
           [''aggregation_summary'', ''aggregation_timestamp'']]"
    using others[OF _ r] by blast
  have m': "aggregate_incident_data Missing incident =
        (\<lparr>incident_data = incident, historical_incidents = [], err_stream = []\<rparr>, Inr r)"
    using m r by simp
  have e': "\<forall>e. aggregate_incident_data (Exists (Inl e)) incident =
        (\<lparr>incident_data = incident, historical_incidents = [], err_stream = [Warning e]\<rparr>, Inr r)"
    using e r by simp
  from m' e' p o show ?thesis by blast
qed

theorem c5_witness:
  "incident_record (JObj [(''id'', JStr ''inc-2''), (''service'', JStr ''payments'')]) \<and>
   (\<exists>r. aggregate_incident_data Missing (JObj [(''id'', JStr ''inc-2''), (''service'', JStr ''payments'')]) =
        (\<lparr>incident_data = (JObj [(''id'', JStr ''inc-2''), (''service'', JStr ''payments'')]), historical_incidents = [], err_stream = []\<rparr>, Inr r) \<and>
     (\<forall>e. aggregate_incident_data (Exists (Inl e)) (JObj [(''id'', JStr ''inc-2''), (''service'', JStr ''payments'')]) =
        (\<lparr>incident_data = (JObj [(''id'', JStr ''inc-2''), (''service'', JStr ''payments'')]), historical_incidents = [], err_stream = [Warning e]\<rparr>, Inr r)) \<and>
     at_path r [''data_sources'', ''historical_patterns'', ''count''] = Some (JInt 0) \<and>
     at_path r [''data_sources'', ''historical_patterns'', ''incidents''] = Some (JArr []) \<and>
     at_path r [''aggregation_summary'', ''similar_incidents''] = Some (JInt 0) \<and>
     (\<forall>hf fr' r'. aggregate_incident_data hf (JObj [(''id'', JStr ''inc-2''), (''service'', JStr ''payments'')]) = (fr', Inr r') \<longrightarrow>
        list_all (\<lambda>p. at_path r' p = at_path r p)
          [[''current_incident''],
           [''data_sources'', ''logs''],
           [''data_sources'', ''metrics''],
           [''data_sources'', ''context''],
           [''data_sources'', ''historical_patterns'', ''source''],
           [''aggregation_summary'', ''total_sources''],
           [''aggregation_summary'', ''log_entries''],
           [''aggregation_summary'', ''metric_points''],
           [''aggregation_summary'', ''aggregation_timestamp'']]))"
proof -
  have h: "incident_record (JObj [(''id'', JStr ''inc-2''), (''service'', JStr ''payments'')])"
    by (simp add: incident_record_def field_is_def)
  show ?thesis
    using h c5_unavailable_historical_file[OF h] by (rule conjI)
qed

text \<open>
  C6. When the primary incident input is missing, unreadable or not valid JSON, the
  exception of \<^verbatim>\<open>open\<close> or \<^verbatim>\<open>json.load\<close> itself reaches the caller; when the input is
  loaded but is not a mapping, the \<^verbatim>\<open>AttributeError\<close> of its missing \<^verbatim>\<open>get\<close> does. In
  both cases the process ends with exit status 1 and prints no report on standard output.
\<close>

theorem c6_fatal_input:
  "(read_incident ev = Inl e \<longrightarrow>
      main ev = \<lparr>stdout = [], stderr = [Traceback e], exit_status = 1\<rparr>) \<and>
   (read_incident ev = Inr v \<and> \<not> is_obj v \<longrightarrow>
      stdout (main ev) = [] \<and> exit_status (main ev) = 1 \<and>
      stderr (main ev) =
        err_stream (fst (aggregate_incident_data (historical ev) v)) @ [Traceback AttributeError])"
proof -
  have "build_aggregated fr = Inl AttributeError" if "\<not> is_obj (incident_data fr)" for fr
    using that by (simp add: build_aggregated_def Let_def and_then_def py_get_default_non_obj)
  moreover have "incident_data (load_historical hf fr) = incident_data fr" for hf fr
    by (auto simp: load_historical_def split: hist_file.splits sum.splits)
  ultimately have a: "aggregate_incident_data hf v =
      (fst (aggregate_incident_data hf v), Inl AttributeError)" if "\<not> is_obj v" for hf
    using that by (simp add: aggregate_incident_data_def Let_def)
  have "main ev = \<lparr>stdout = [], stderr = [Traceback e], exit_status = 1\<rparr>"
    if "read_incident ev = Inl e"
    using that by (simp add: main_def)
  moreover have "stdout (main ev) = [] \<and> exit_status (main ev) = 1 \<and>
      stderr (main ev) =
        err_stream (fst (aggregate_incident_data (historical ev) v)) @ [Traceback AttributeError]"
    if ri: "read_incident ev = Inr v" and no: "\<not> is_obj v"
  proof -
    obtain fr where fr: "aggregate_incident_data (historical ev) v = (fr, Inl AttributeError)"
      using a[OF no] by blast
    show ?thesis by (simp add: main_def ri fr)
  qed
  ultimately show ?thesis by blast
qed

theorem c6_witness:
  "read_incident
     \<lparr>argv = [''aggregate_data.py'', ''incident.json''], load_path = (\<lambda>p. Inl FileNotFoundError),
       load_stdin = Inl JSONDecodeError, historical = Missing\<rparr> = Inl FileNotFoundError \<and>
   main
     \<lparr>argv = [''aggregate_data.py'', ''incident.json''], load_path = (\<lambda>p. Inl FileNotFoundError),
       load_stdin = Inl JSONDecodeError, historical = Missing\<rparr> = \<lparr>stdout = [], stderr = [Traceback FileNotFoundError], exit_status = 1\<rparr> \<and>
   read_incident
     \<lparr>argv = [''aggregate_data.py''], load_path = (\<lambda>p. Inl FileNotFoundError),
       load_stdin = Inr (JArr []), historical = Exists (Inr (JArr []))\<rparr> = Inr (JArr []) \<and>
   \<not> is_obj (JArr []) \<and>
   stdout (main
     \<lparr>argv = [''aggregate_data.py''], load_path = (\<lambda>p. Inl FileNotFoundError),
       load_stdin = Inr (JArr []), historical = Exists (Inr (JArr []))\<rparr>) = [] \<and>
   exit_status (main
     \<lparr>argv = [''aggregate_data.py''], load_path = (\<lambda>p. Inl FileNotFoundError),
       load_stdin = Inr (JArr []), historical = Exists (Inr (JArr []))\<rparr>) = 1 \<and>
   stderr (main
     \<lparr>argv = [''aggregate_data.py''], load_path = (\<lambda>p. Inl FileNotFoundError),
       load_stdin = Inr (JArr []), historical = Exists (Inr (JArr []))\<rparr>) = [Warning AttributeError, Traceback AttributeError]"
proof -
  have r1: "read_incident
     \<lparr>argv = [''aggregate_data.py'', ''incident.json''], load_path = (\<lambda>p. Inl FileNotFoundError),
       load_stdin = Inl JSONDecodeError, historical = Missing\<rparr> = Inl FileNotFoundError"
    by (simp add: read_incident_def)
  have r2: "read_incident
     \<lparr>argv = [''aggregate_data.py''], load_path = (\<lambda>p. Inl FileNotFoundError),
       load_stdin = Inr (JArr []), historical = Exists (Inr (JArr []))\<rparr> = Inr (JArr [])"
    by (simp add: read_incident_def)
  have w: "err_stream (fst (aggregate_incident_data (Exists (Inr (JArr []))) (JArr [])))
      = [Warning AttributeError]"
    by (simp add: aggregate_incident_data_def load_historical_def similar_incidents_def
        and_then_def py_get_default_def Let_def)
  show ?thesis
    using r1 r2 w
      c6_fatal_input[of "\<lparr>argv = [''aggregate_data.py'', ''incident.json''], load_path = (\<lambda>p. Inl FileNotFoundError),
       load_stdin = Inl JSONDecodeError, historical = Missing\<rparr>" FileNotFoundError "JArr []"]
      c6_fatal_input[of "\<lparr>argv = [''aggregate_data.py''], load_path = (\<lambda>p. Inl FileNotFoundError),
       load_stdin = Inr (JArr []), historical = Exists (Inr (JArr []))\<rparr>" FileNotFoundError "JArr []"]
    by simp
qed

text \<open>
  C7. For the incident
  \<^verbatim>\<open>{"id":"inc-2","service":"payments","logs":["a","b"],"metrics":{"cpu":90},"timestamp":"T1"}\<close>
  and the historical store
  \<^verbatim>\<open>[{"id":"inc-1","service":"payments"},{"id":"inc-2","service":"payments"},{"id":"inc-3","service":"billing"}]\<close>
  the report has \<^verbatim>\<open>historical_patterns.count\<close> equal to 1, and the one selected match is
  the record with id \<^verbatim>\<open>inc-1\<close>.
\<close>

theorem c7_example_one_match:
  "\<exists>fr r. aggregate_incident_data
       (Exists (Inr (JArr
          [JObj [(''id'', JStr ''inc-1''), (''service'', JStr ''payments'')],
           JObj [(''id'', JStr ''inc-2''), (''service'', JStr ''payments'')],
           JObj [(''id'', JStr ''inc-3''), (''service'', JStr ''billing'')]])))
       (JObj [(''id'', JStr ''inc-2''), (''service'', JStr ''payments''),
              (''logs'', JArr [JStr ''a'', JStr ''b'']),
              (''metrics'', JObj [(''cpu'', JInt 90)]),
              (''timestamp'', JStr ''T1'')]) = (fr, Inr r) \<and>
     at_path r [''data_sources'', ''historical_patterns'', ''count''] = Some (JInt 1) \<and>
     at_path r [''data_sources'', ''historical_patterns'', ''incidents''] =
       Some (JArr [JObj [(''id'', JStr ''inc-1''), (''service'', JStr ''payments'')]])"
  by (simp add: aggregate_incident_data_def load_historical_def similar_incidents_def
      build_aggregated_def and_then_def py_get_def py_get_default_def py_iter_def py_len_def
      py_slice3_def item_def Let_def)

text \<open>
  C8. In every report the function returns, \<^verbatim>\<open>aggregation_summary.log_entries\<close> equals
  \<^verbatim>\<open>data_sources.logs.count\<close>, and \<^verbatim>\<open>aggregation_summary.similar_incidents\<close> equals
  \<^verbatim>\<open>data_sources.historical_patterns.count\<close>, which is the length of
  \<^verbatim>\<open>data_sources.historical_patterns.incidents\<close>.
\<close>

theorem c8_counts_agree:
  assumes "aggregate_incident_data hf incident = (fr, Inr r)"
  shows "\<exists>n. at_path r [''aggregation_summary'', ''log_entries''] = Some n \<and>
           at_path r [''data_sources'', ''logs'', ''count''] = Some n \<and>
           at_path r [''aggregation_summary'', ''similar_incidents''] =
             Some (JInt (int (length (historical_incidents fr)))) \<and>
           at_path r [''data_sources'', ''historical_patterns'', ''count''] =
             Some (JInt (int (length (historical_incidents fr)))) \<and>
           at_path r [''data_sources'', ''historical_patterns'', ''incidents''] =
             Some (JArr (historical_incidents fr))"
proof -
  from assms have b: "build_aggregated fr = Inr r"
    by (auto simp: aggregate_incident_data_def Let_def)
  then show ?thesis
    unfolding build_aggregated_def Let_def and_then_def
    by (auto simp: item_def split: sum.splits)
qed

theorem c8_witness:
  "\<exists>fr r. aggregate_incident_data (Exists (Inr (JArr [JObj [(''id'', JStr ''h1'')], JObj [(''id'', JStr ''h2''), (''service'', JStr ''payments'')]]))) (JObj [(''id'', JStr ''inc-2''), (''service'', JStr ''payments'')]) = (fr, Inr r) \<and>
     (\<exists>n. at_path r [''aggregation_summary'', ''log_entries''] = Some n \<and>
           at_path r [''data_sources'', ''logs'', ''count''] = Some n \<and>
           at_path r [''aggregation_summary'', ''similar_incidents''] =
             Some (JInt (int (length (historical_incidents fr)))) \<and>
           at_path r [''data_sources'', ''historical_patterns'', ''count''] =
             Some (JInt (int (length (historical_incidents fr)))) \<and>
           at_path r [''data_sources'', ''historical_patterns'', ''incidents''] =
             Some (JArr (historical_incidents fr)))"
proof -
  obtain fr r where a: "aggregate_incident_data (Exists (Inr (JArr [JObj [(''id'', JStr ''h1'')], JObj [(''id'', JStr ''h2''), (''service'', JStr ''payments'')]]))) (JObj [(''id'', JStr ''inc-2''), (''service'', JStr ''payments'')]) = (fr, Inr r)"
    by (simp add: aggregate_incident_data_def load_historical_def similar_incidents_def
        build_aggregated_def and_then_def py_get_def py_get_default_def py_iter_def py_len_def
        py_slice3_def Let_def)
  from c8_counts_agree[OF a] a show ?thesis by blast
qed

text \<open>
  C9. A record of the historical store that has no \<^verbatim>\<open>service\<close> key is never selected,
  for every incident record and every state of the historical file: the incident's service
  is a string, the empty one when the field is absent, and the record's \<^verbatim>\<open>get\<close> yields
  \<^verbatim>\<open>None\<close>, which equals no string.
\<close>

theorem c9_record_without_service:
  assumes "incident_record incident" and "dict_get kvs ''service'' = None"
  shows "\<exists>fr r. aggregate_incident_data hf incident = (fr, Inr r) \<and>
     at_path r [''data_sources'', ''historical_patterns'', ''incidents''] =
       Some (JArr (historical_incidents fr)) \<and>
     JObj kvs \<notin> set (historical_incidents fr)"
proof -
  obtain hs es logs ms c t where
    f: "py_get_default incident ''logs'' (JArr []) = Inr (JArr logs)"
      "py_get_default incident ''metrics'' (JObj []) = Inr (JObj ms)"
      "py_get_default incident ''context'' (JObj []) = Inr (JObj c)"
      "py_get_default incident ''timestamp'' (JStr []) = Inr (JStr t)"
    and l: "load_historical hf \<lparr>incident_data = incident, historical_incidents = [], err_stream = []\<rparr>
        = \<lparr>incident_data = incident, historical_incidents = hs, err_stream = es\<rparr>"
    and a: "aggregate_incident_data hf incident =
        (\<lparr>incident_data = incident, historical_incidents = hs, err_stream = es\<rparr>,
         build_aggregated \<lparr>incident_data = incident, historical_incidents = hs, err_stream = es\<rparr>)"
    using aggregate_record[OF assms(1)] by blast
  obtain s where s: "py_get_default incident ''service'' (JStr []) = Inr (JStr s)"
    using incident_record_keys[OF assms(1)] by blast
  have "JObj kvs \<notin> set hs"
  proof
    assume m: "JObj kvs \<in> set hs"
    then have "hs \<noteq> []" by auto
    with l obtain v where "similar_incidents incident v = Inr hs"
      by (auto simp: load_historical_def and_then_def split: hist_file.splits sum.splits)
    then obtain incs ms' where c: "comprehension incident (JStr s) incs = Inr ms'" and hs: "hs = take 3 ms'"
      by (auto simp: similar_incidents_def and_then_def s split: sum.splits)
    from m hs have "JObj kvs \<in> set ms'" by (auto dest: in_set_takeD)
    from comprehension_sound[OF c this]
    show False by (simp add: py_get_def assms(2))
  qed
  then show ?thesis
    unfolding a build_aggregated_record[OF f] by (simp add: item_def)
qed

theorem c9_witness:
  "incident_record (JObj [(''id'', JStr ''inc-2''), (''service'', JStr ''payments'')]) \<and>
   dict_get [(''id'', JStr ''h1'')] ''service'' = None \<and>
   (\<exists>fr r. aggregate_incident_data (Exists (Inr (JArr [JObj [(''id'', JStr ''h1'')], JObj [(''id'', JStr ''h2''), (''service'', JStr ''payments'')]])))
       (JObj [(''id'', JStr ''inc-2''), (''service'', JStr ''payments'')]) = (fr, Inr r) \<and>
     at_path r [''data_sources'', ''historical_patterns'', ''incidents''] = Some (JArr (historical_incidents fr)) \<and>
     JObj [(''id'', JStr ''h1'')] \<notin> set (historical_incidents fr))"
proof -
  have h: "incident_record (JObj [(''id'', JStr ''inc-2''), (''service'', JStr ''payments'')])"
    by (simp add: incident_record_def field_is_def)
  have k: "dict_get [(''id'', JStr ''h1'')] ''service'' = None"
    by simp
  show ?thesis
    using h k c9_record_without_service[OF h k, of "Exists (Inr (JArr [JObj [(''id'', JStr ''h1'')], JObj [(''id'', JStr ''h2''), (''service'', JStr ''payments'')]]))"] by blast
qed

text \<open>
  C10, as stated, asks for a warning whenever the loaded value is not an array of
  mappings. An empty mapping is iterated without a single step, so nothing raises and
  nothing is written to the error stream.
\<close>

theorem c10_counterexample:
  "incident_record (JObj [(''id'', JStr ''inc-2''), (''service'', JStr ''payments'')]) \<and>
   \<not> historical_store (JObj []) \<and>
   err_stream (fst (aggregate_incident_data (Exists (Inr (JObj [])))
      (JObj [(''id'', JStr ''inc-2''), (''service'', JStr ''payments'')]))) = []"
  by (simp add: incident_record_def field_is_def historical_store_def
      aggregate_incident_data_def load_historical_def similar_incidents_def and_then_def
      py_get_default_def py_iter_def Let_def)

text \<open>
  C10, amended. For every incident record, when the historical file loads to a value that
  is not an array of mappings, the function returns the report with an empty historical
  match set. It writes one warning, except for an empty mapping and an empty string, for
  which it writes none: the warning carries a \<^verbatim>\<open>TypeError\<close> when the value cannot be
  iterated (null, a bool, a number) and an \<^verbatim>\<open>AttributeError\<close> when an iterated element has
  no \<^verbatim>\<open>get\<close> (an array with an element that is not a mapping, a mapping with a key, a
  string with a character).
\<close>

theorem c10_malformed_store:
  assumes "incident_record incident" and "\<not> historical_store v"
  shows "\<exists>fr r. aggregate_incident_data (Exists (Inr v)) incident = (fr, Inr r) \<and>
     historical_incidents fr = [] \<and>
     at_path r [''data_sources'', ''historical_patterns'', ''incidents''] = Some (JArr []) \<and>
     at_path r [''data_sources'', ''historical_patterns'', ''count''] = Some (JInt 0) \<and>
     at_path r [''aggregation_summary'', ''similar_incidents''] = Some (JInt 0) \<and>
     err_stream fr =
       (if v = JObj [] \<or> v = JStr [] then []
        else [Warning (if is_arr v \<or> is_obj v \<or> is_str v then AttributeError else TypeError)])"
proof -
  let ?es = "if v = JObj [] \<or> v = JStr [] then []
        else [Warning (if is_arr v \<or> is_obj v \<or> is_str v then AttributeError else TypeError)]"
  obtain logs ms c t where
    f: "py_get_default incident ''logs'' (JArr []) = Inr (JArr logs)"
      "py_get_default incident ''metrics'' (JObj []) = Inr (JObj ms)"
      "py_get_default incident ''context'' (JObj []) = Inr (JObj c)"
      "py_get_default incident ''timestamp'' (JStr []) = Inr (JStr t)"
    using incident_record_fields[OF assms(1)] by blast
  have o: "is_obj incident"
    using assms(1) by (cases incident) (auto simp: incident_record_def)
  have l: "load_historical (Exists (Inr v))
         \<lparr>incident_data = incident, historical_incidents = [], err_stream = []\<rparr>
       = \<lparr>incident_data = incident, historical_incidents = [], err_stream = ?es\<rparr>"
    by (simp add: load_historical_def and_then_def similar_incidents_malformed[OF o assms(2)])
  have a: "aggregate_incident_data (Exists (Inr v)) incident =
      (\<lparr>incident_data = incident, historical_incidents = [], err_stream = ?es\<rparr>,
       build_aggregated \<lparr>incident_data = incident, historical_incidents = [], err_stream = ?es\<rparr>)"
    by (simp add: aggregate_incident_data_def l Let_def)
  show ?thesis
    unfolding a build_aggregated_record[OF f] by (simp add: item_def)
qed

theorem c10_witness:
  "incident_record (JObj [(''id'', JStr ''inc-2''), (''service'', JStr ''payments'')]) \<and>
   \<not> historical_store (JArr [JObj [(''id'', JStr ''h1''), (''service'', JStr ''payments'')], JInt 3]) \<and>
   (\<exists>fr r. aggregate_incident_data (Exists (Inr (JArr [JObj [(''id'', JStr ''h1''), (''service'', JStr ''payments'')], JInt 3])))
       (JObj [(''id'', JStr ''inc-2''), (''service'', JStr ''payments'')]) = (fr, Inr r) \<and>
     historical_incidents fr = [] \<and>
     at_path r [''data_sources'', ''historical_patterns'', ''incidents''] = Some (JArr []) \<and>
     at_path r [''data_sources'', ''historical_patterns'', ''count''] = Some (JInt 0) \<and>
     at_path r [''aggregation_summary'', ''similar_incidents''] = Some (JInt 0) \<and>
     err_stream fr = [Warning AttributeError])"
proof -
  have h: "incident_record (JObj [(''id'', JStr ''inc-2''), (''service'', JStr ''payments'')])"
    by (simp add: incident_record_def field_is_def)
  have s: "\<not> historical_store (JArr [JObj [(''id'', JStr ''h1''), (''service'', JStr ''payments'')], JInt 3])"
    by (simp add: historical_store_def)
  show ?thesis
    using h s c10_malformed_store[OF h s] by simp
qed

end
